theory Spec2Isabelle
  imports Main "HOL-Library.Sublist" "HOL-Library.Multiset"
begin

section \<open>Values\<close>

text \<open>
  A Python \<open>str\<close> is a sequence of Unicode code points, and every length limit of the
  schemas counts code points. \<open>lit\<close> writes an ASCII literal as a \<open>str\<close>.
\<close>

type_synonym str = "nat list"

text \<open>
  A \<open>datetime\<close> has its wall-clock fields, year to microsecond, held here as one number,
  and, when it is aware, a UTC offset. The \<open>DateTime\<close> columns of the table keep the
  wall-clock fields only, and \<open>datetime.utcnow()\<close> has no offset either: what the table
  holds and what is read back from it is a naive datetime, held as its wall-clock number.
\<close>

type_synonym naive_datetime = int

datatype datetime = Datetime (wallclock: naive_datetime) (utcoffset: "int option")

definition naive :: "naive_datetime \<Rightarrow> datetime" where
  "naive w = Datetime w None"

text \<open>
  The integers SQLite stores and the driver binds: a Python \<open>int\<close> outside the signed
  64-bit range raises \<open>OverflowError\<close> when it is bound to a statement.
\<close>

definition sqlite_integer :: "int \<Rightarrow> bool" where
  "sqlite_integer i = (- (2 ^ 63) \<le> i \<and> i < 2 ^ 63)"

definition lit :: "string \<Rightarrow> str" where
  "lit cs = map of_char cs"

section \<open>Models\<close>

datatype TaskStatus = pending | in_progress | completed

text \<open>\<open>TaskStatus.value\<close>, and the lookup of a member by value, \<open>TaskStatus(value)\<close>.\<close>

fun status_value :: "TaskStatus \<Rightarrow> str" where
  "status_value pending = lit ''pending''"
| "status_value in_progress = lit ''in_progress''"
| "status_value completed = lit ''completed''"

definition parse_status :: "str \<Rightarrow> TaskStatus option" where
  "parse_status v =
     (if v = lit ''pending'' then Some pending
      else if v = lit ''in_progress'' then Some in_progress
      else if v = lit ''completed'' then Some completed
      else None)"

text \<open>
  \<open>TaskDB\<close> and \<open>TaskOut\<close> have the same seven attributes; they differ in the type of
  \<open>status\<close>, a string column in the table and a \<open>TaskStatus\<close> in the response.
  The column \<open>id\<close> is the field \<open>task_id\<close>.
\<close>

record 'st task_fields =
  task_id :: int
  title :: str
  description :: "str option"
  status :: 'st
  due_date :: naive_datetime
  created_at :: naive_datetime
  updated_at :: naive_datetime

type_synonym TaskDB = "str task_fields"

type_synonym TaskOut = "TaskStatus task_fields"

record TaskCreate =
  create_title :: str
  create_description :: "str option"
  create_due_date :: datetime
  create_status :: TaskStatus

record TaskUpdate =
  update_title :: "str option"
  update_description :: "str option"
  update_status :: "TaskStatus option"
  update_due_date :: "datetime option"

record TaskListOut =
  total :: int
  items :: "TaskOut list"

section \<open>Errors\<close>

text \<open>
  A request ends in a response model or in an error: a validation error carrying the names
  of the offending fields, \<open>HTTPException(404)\<close>, or an exception that escapes the handler.
\<close>

datatype error = Validation_Error "string list" | Not_Found | Internal_Error

fun error_status :: "error \<Rightarrow> nat" where
  "error_status (Validation_Error _) = 422"
| "error_status Not_Found = 404"
| "error_status Internal_Error = 500"

text \<open>The status code of a response, given the success code declared on the route.\<close>

definition status_code :: "nat \<Rightarrow> error + 'a \<Rightarrow> nat" where
  "status_code ok r = (case r of Inl e \<Rightarrow> error_status e | Inr _ \<Rightarrow> ok)"

section \<open>Request bodies and their validation\<close>

text \<open>
  A key of a JSON body is absent, \<open>null\<close>, or carries a value. The bodies of
  \<open>POST /tasks\<close> and \<open>PATCH /tasks/{id}\<close> are objects over the same four keys; the
  status arrives as a string.
\<close>

datatype 'a field = Omitted | Null | Given 'a

record json_body =
  json_title :: "str field"
  json_description :: "str field"
  json_due_date :: "datetime field"
  json_status :: "str field"

text \<open>
  Each function below validates one field of a schema: \<open>None\<close> is a field error,
  \<open>Some v\<close> the value of the attribute on the validated model.
\<close>

definition TaskBase_title :: "str field \<Rightarrow> str option" where
  "TaskBase_title f =
     (case f of Given t \<Rightarrow> if 1 \<le> length t \<and> length t \<le> 200 then Some t else None
      | _ \<Rightarrow> None)"

definition Optional_description :: "str field \<Rightarrow> str option option" where
  "Optional_description f =
     (case f of Given d \<Rightarrow> if length d \<le> 10000 then Some (Some d) else None
      | _ \<Rightarrow> Some None)"

definition TaskBase_due_date :: "datetime field \<Rightarrow> datetime option" where
  "TaskBase_due_date f = (case f of Given d \<Rightarrow> Some d | _ \<Rightarrow> None)"

definition TaskCreate_status :: "str field \<Rightarrow> TaskStatus option" where
  "TaskCreate_status f =
     (case f of Omitted \<Rightarrow> Some pending | Null \<Rightarrow> None | Given v \<Rightarrow> parse_status v)"

definition TaskUpdate_title :: "str field \<Rightarrow> str option option" where
  "TaskUpdate_title f =
     (case f of Given t \<Rightarrow> if 1 \<le> length t \<and> length t \<le> 200 then Some (Some t) else None
      | _ \<Rightarrow> Some None)"

definition TaskUpdate_status :: "str field \<Rightarrow> TaskStatus option option" where
  "TaskUpdate_status f =
     (case f of Given v \<Rightarrow> (case parse_status v of None \<Rightarrow> None | Some s \<Rightarrow> Some (Some s))
      | _ \<Rightarrow> Some None)"

definition TaskUpdate_due_date :: "datetime field \<Rightarrow> datetime option option" where
  "TaskUpdate_due_date f = (case f of Given d \<Rightarrow> Some (Some d) | _ \<Rightarrow> Some None)"

definition field_error :: "string \<Rightarrow> 'a option \<Rightarrow> string list" where
  "field_error name v = (case v of None \<Rightarrow> [name] | Some _ \<Rightarrow> [])"

definition TaskCreate_errors :: "json_body \<Rightarrow> string list" where
  "TaskCreate_errors b =
     field_error ''title'' (TaskBase_title (json_title b)) @
     field_error ''description'' (Optional_description (json_description b)) @
     field_error ''due_date'' (TaskBase_due_date (json_due_date b)) @
     field_error ''status'' (TaskCreate_status (json_status b))"

definition TaskCreate_validate :: "json_body \<Rightarrow> error + TaskCreate" where
  "TaskCreate_validate b =
     (case (TaskBase_title (json_title b), Optional_description (json_description b),
            TaskBase_due_date (json_due_date b), TaskCreate_status (json_status b)) of
        (Some t, Some d, Some dd, Some s) \<Rightarrow>
          Inr \<lparr>create_title = t, create_description = d, create_due_date = dd,
               create_status = s\<rparr>
      | _ \<Rightarrow> Inl (Validation_Error (TaskCreate_errors b)))"

definition TaskUpdate_errors :: "json_body \<Rightarrow> string list" where
  "TaskUpdate_errors b =
     field_error ''title'' (TaskUpdate_title (json_title b)) @
     field_error ''description'' (Optional_description (json_description b)) @
     field_error ''status'' (TaskUpdate_status (json_status b)) @
     field_error ''due_date'' (TaskUpdate_due_date (json_due_date b))"

definition TaskUpdate_validate :: "json_body \<Rightarrow> error + TaskUpdate" where
  "TaskUpdate_validate b =
     (case (TaskUpdate_title (json_title b), Optional_description (json_description b),
            TaskUpdate_status (json_status b), TaskUpdate_due_date (json_due_date b)) of
        (Some t, Some d, Some s, Some dd) \<Rightarrow>
          Inr \<lparr>update_title = t, update_description = d, update_status = s,
               update_due_date = dd\<rparr>
      | _ \<Rightarrow> Inl (Validation_Error (TaskUpdate_errors b)))"

text \<open>
  \<open>TaskOut.model_validate\<close> reads the attributes of a row; the status string has to be
  the value of a \<open>TaskStatus\<close> member, otherwise the validation raises inside the handler.
\<close>

definition model_validate :: "TaskDB \<Rightarrow> error + TaskOut" where
  "model_validate t =
     (case parse_status (status t) of
        None \<Rightarrow> Inl Internal_Error
      | Some s \<Rightarrow>
          Inr \<lparr>task_id = task_id t, title = title t, description = description t,
               status = s, due_date = due_date t, created_at = created_at t,
               updated_at = updated_at t\<rparr>)"

section \<open>The table\<close>

text \<open>
  The table \<open>tasks\<close> is the list of its rows in insertion order. \<open>db_get\<close> finds the
  row with a primary key in the table; \<open>Session_get\<close> is \<open>db.get(TaskDB, task_id)\<close>,
  which binds the id to the lookup statement first. A new row gets its id from the
  database: for an integer primary key SQLite takes one more than the largest id in use,
  and 1 in an empty table. (Once the largest id is \<open>2^63 - 1\<close> SQLite picks an unused id
  at random instead; fewer than \<open>2^63\<close> inserts never get there.)
\<close>

type_synonym table = "TaskDB list"

definition db_get :: "int \<Rightarrow> table \<Rightarrow> TaskDB option" where
  "db_get i db = find (\<lambda>t. task_id t = i) db"

definition Session_get :: "int \<Rightarrow> table \<Rightarrow> error + TaskDB option" where
  "Session_get i db = (if sqlite_integer i then Inr (db_get i db) else Inl Internal_Error)"

definition next_rowid :: "table \<Rightarrow> int" where
  "next_rowid db = (if db = [] then 1 else Max (set (map task_id db)) + 1)"

definition db_add :: "TaskDB \<Rightarrow> table \<Rightarrow> table" where
  "db_add t db = db @ [t]"

definition db_put :: "TaskDB \<Rightarrow> table \<Rightarrow> table" where
  "db_put t db = map (\<lambda>r. if task_id r = task_id t then t else r) db"

definition db_delete :: "TaskDB \<Rightarrow> table \<Rightarrow> table" where
  "db_delete t db = filter (\<lambda>r. task_id r \<noteq> task_id t) db"

section \<open>Handlers\<close>

text \<open>
  Every handler takes the table and returns its response with the table after the commit;
  \<open>now\<close> is the reading of \<open>datetime.utcnow()\<close> the handler takes. The response is
  built after \<open>db.commit()\<close> and \<open>db.refresh(task)\<close>, from the row as the table holds
  it: a due date is written to its column without its UTC offset.
\<close>

definition create_task :: "naive_datetime \<Rightarrow> TaskCreate \<Rightarrow> table \<Rightarrow> (error + TaskOut) \<times> table" where
  "create_task now payload db =
     (let task = \<lparr>task_id = next_rowid db,
                  title = create_title payload,
                  description = create_description payload,
                  status = status_value (create_status payload),
                  due_date = wallclock (create_due_date payload),
                  created_at = now,
                  updated_at = now\<rparr>
      in (model_validate task, db_add task db))"

definition get_task :: "int \<Rightarrow> table \<Rightarrow> error + TaskOut" where
  "get_task i db =
     (case Session_get i db of
        Inl e \<Rightarrow> Inl e
      | Inr None \<Rightarrow> Inl Not_Found
      | Inr (Some task) \<Rightarrow> model_validate task)"

text \<open>The assignments \<open>update_task\<close> makes to the row it has fetched.\<close>

definition apply_update :: "naive_datetime \<Rightarrow> TaskUpdate \<Rightarrow> TaskDB \<Rightarrow> TaskDB" where
  "apply_update now payload task =
     (let task1 = (case update_title payload of
                     None \<Rightarrow> task | Some v \<Rightarrow> task\<lparr>title := v\<rparr>);
          task2 = (case update_description payload of
                     None \<Rightarrow> task1 | Some v \<Rightarrow> task1\<lparr>description := Some v\<rparr>);
          task3 = (case update_status payload of
                     None \<Rightarrow> task2 | Some v \<Rightarrow> task2\<lparr>status := status_value v\<rparr>);
          task4 = (case update_due_date payload of
                     None \<Rightarrow> task3 | Some v \<Rightarrow> task3\<lparr>due_date := wallclock v\<rparr>)
      in task4\<lparr>updated_at := now\<rparr>)"

definition update_task :: "naive_datetime \<Rightarrow> int \<Rightarrow> TaskUpdate \<Rightarrow> table \<Rightarrow> (error + TaskOut) \<times> table" where
  "update_task now i payload db =
     (case Session_get i db of
        Inl e \<Rightarrow> (Inl e, db)
      | Inr None \<Rightarrow> (Inl Not_Found, db)
      | Inr (Some task) \<Rightarrow>
          let task' = apply_update now payload task
          in (model_validate task', db_put task' db))"

definition delete_task :: "int \<Rightarrow> table \<Rightarrow> (error + unit) \<times> table" where
  "delete_task i db =
     (case Session_get i db of
        Inl e \<Rightarrow> (Inl e, db)
      | Inr None \<Rightarrow> (Inl Not_Found, db)
      | Inr (Some task) \<Rightarrow> (Inr (), db_delete task db))"

text \<open>
  The routes: the body is validated against the schema of the handler's \<open>payload\<close>
  before the handler runs, and a body that fails never reaches it.
\<close>

definition POST_tasks :: "naive_datetime \<Rightarrow> json_body \<Rightarrow> table \<Rightarrow> (error + TaskOut) \<times> table" where
  "POST_tasks now b db =
     (case TaskCreate_validate b of
        Inl e \<Rightarrow> (Inl e, db)
      | Inr payload \<Rightarrow> create_task now payload db)"

definition PATCH_task :: "naive_datetime \<Rightarrow> int \<Rightarrow> json_body \<Rightarrow> table \<Rightarrow> (error + TaskOut) \<times> table" where
  "PATCH_task now i b db =
     (case TaskUpdate_validate b of
        Inl e \<Rightarrow> (Inl e, db)
      | Inr payload \<Rightarrow> update_task now i payload db)"

definition DELETE_task :: "int \<Rightarrow> table \<Rightarrow> (error + unit) \<times> table" where
  "DELETE_task i db = delete_task i db"

definition GET_task :: "int \<Rightarrow> table \<Rightarrow> error + TaskOut" where
  "GET_task i db = get_task i db"

text \<open>
  The status code of each route's response: the code its decorator declares when the
  handler returns, the code of the error otherwise.
\<close>

definition POST_tasks_status :: "error + TaskOut \<Rightarrow> nat" where
  "POST_tasks_status r = status_code 201 r"


definition PATCH_task_status :: "error + TaskOut \<Rightarrow> nat" where
  "PATCH_task_status r = status_code 200 r"



section \<open>Listing\<close>

text \<open>
  \<open>str.strip()\<close> removes the leading and trailing code points that \<open>str.isspace\<close>
  accepts.
\<close>

definition isspace :: "nat \<Rightarrow> bool" where
  "isspace c =
     ((9 \<le> c \<and> c \<le> 13) \<or> (28 \<le> c \<and> c \<le> 32) \<or> c = 133 \<or> c = 160 \<or> c = 5760 \<or>
      (8192 \<le> c \<and> c \<le> 8202) \<or> c = 8232 \<or> c = 8233 \<or> c = 8239 \<or> c = 8287 \<or> c = 12288)"

definition strip :: "str \<Rightarrow> str" where
  "strip s = rev (dropWhile isspace (rev (dropWhile isspace s)))"

text \<open>
  \<open>TaskDB.title.ilike(pattern)\<close> reaches SQLite as \<open>lower(title) LIKE lower(pattern)\<close>.
  SQLite's \<open>lower\<close> folds the ASCII letters only. In a \<open>LIKE\<close> pattern \<open>%\<close> (37)
  stands for any run of characters, \<open>_\<close> (95) for any one character, and every other
  character for itself, compared without regard to ASCII case; \<open>patternCompare\<close> is
  SQLite's matcher.
\<close>

definition ascii_lower :: "nat \<Rightarrow> nat" where
  "ascii_lower c = (if 65 \<le> c \<and> c \<le> 90 then c + 32 else c)"

definition sqlite_lower :: "str \<Rightarrow> str" where
  "sqlite_lower s = map ascii_lower s"

fun patternCompare :: "str \<Rightarrow> str \<Rightarrow> bool" where
  "patternCompare [] [] = True"
| "patternCompare [] (c # cs) = False"
| "patternCompare (p # ps) [] = (p = 37 \<and> patternCompare ps [])"
| "patternCompare (p # ps) (c # cs) =
     (if p = 37 then patternCompare ps (c # cs) \<or> patternCompare (p # ps) cs
      else (p = 95 \<or> ascii_lower p = ascii_lower c) \<and> patternCompare ps cs)"

text \<open>
  The \<open>LIKE\<close> function of SQLite, applied to a row: a pattern of more than 50000 bytes
  of UTF-8 is an error (\<open>LIKE or GLOB pattern too complex\<close>), and the matcher reads the
  pattern and the text as C strings, up to their first U+0000.
\<close>

definition utf8_bytes :: "nat \<Rightarrow> nat" where
  "utf8_bytes c = (if c < 128 then 1 else if c < 2048 then 2 else if c < 65536 then 3 else 4)"

definition utf8_length :: "str \<Rightarrow> nat" where
  "utf8_length s = sum_list (map utf8_bytes s)"

definition c_string :: "str \<Rightarrow> str" where
  "c_string s = takeWhile (\<lambda>c. c \<noteq> 0) s"

definition like :: "str \<Rightarrow> str \<Rightarrow> error + bool" where
  "like pattern text =
     (if 50000 < utf8_length pattern then Inl Internal_Error
      else Inr (patternCompare (c_string pattern) (c_string text)))"

definition ilike :: "str \<Rightarrow> str \<Rightarrow> error + bool" where
  "ilike text pattern = like (sqlite_lower pattern) (sqlite_lower text)"

text \<open>The parameters of \<open>list_tasks\<close>, as the handler receives them.\<close>

record list_args =
  arg_status_filter :: "TaskStatus list option"
  arg_q :: "str option"
  arg_task_id :: "int option"
  arg_limit :: int
  arg_offset :: int
  arg_sort :: str
  arg_order :: str

text \<open>
  \<open>getattr(TaskDB, sort)\<close> for the four columns the pattern of \<open>sort\<close> lets through;
  any other name is rejected before the handler runs.
\<close>

definition sort_col :: "str \<Rightarrow> ('st task_fields \<Rightarrow> int) option" where
  "sort_col name =
     (if name = lit ''id'' then Some task_id
      else if name = lit ''due_date'' then Some due_date
      else if name = lit ''created_at'' then Some created_at
      else if name = lit ''updated_at'' then Some updated_at
      else None)"

text \<open>
  The \<open>where\<close> clauses the handler adds to the statement, evaluated on one row in
  the order they were added; the row is decided by the first clause it fails.
\<close>

definition where_clause :: "list_args \<Rightarrow> TaskDB \<Rightarrow> error + bool" where
  "where_clause a t =
     (if \<not> (case arg_status_filter a of
               None \<Rightarrow> True
             | Some sts \<Rightarrow> if sts \<noteq> [] then status t \<in> set (map status_value sts) else True)
      then Inr False
      else if \<not> (case arg_task_id a of None \<Rightarrow> True | Some i \<Rightarrow> task_id t = i)
      then Inr False
      else (case arg_q a of
              None \<Rightarrow> Inr True
            | Some q \<Rightarrow>
                if q \<noteq> [] then
                  (let search = strip q
                   in if search \<noteq> [] then ilike (title t) ([37] @ search @ [37])
                      else Inr True)
                else Inr True))"

text \<open>
  Running the \<open>where\<close> clauses over the table: the id of the filter is bound to the
  statement first, and an error on any row ends the statement.
\<close>

fun where_rows :: "list_args \<Rightarrow> TaskDB list \<Rightarrow> error + TaskDB list" where
  "where_rows a [] = Inr []"
| "where_rows a (t # ts) =
     (case where_clause a t of
        Inl e \<Rightarrow> Inl e
      | Inr keep \<Rightarrow>
          (case where_rows a ts of
             Inl e \<Rightarrow> Inl e
           | Inr rows \<Rightarrow> Inr (if keep then t # rows else rows)))"

definition select_where :: "list_args \<Rightarrow> table \<Rightarrow> error + TaskDB list" where
  "select_where a db =
     (if (case arg_task_id a of None \<Rightarrow> True | Some i \<Rightarrow> sqlite_integer i)
      then where_rows a db else Inl Internal_Error)"

text \<open>
  \<open>ORDER BY\<close>: SQL leaves the order of rows with equal keys open; the model keeps them
  in table order.
\<close>

definition order_by :: "(TaskDB \<Rightarrow> int) \<Rightarrow> str \<Rightarrow> table \<Rightarrow> table" where
  "order_by col ord rows =
     (if ord = lit ''asc'' then sort_key col rows else sort_key (\<lambda>t. - col t) rows)"

text \<open>
  \<open>LIMIT\<close> and \<open>OFFSET\<close> are bound to the statement like every other integer.
  SQLite reads a negative \<open>LIMIT\<close> as no limit and a negative \<open>OFFSET\<close> as 0.
\<close>

definition sql_offset :: "int \<Rightarrow> 'a list \<Rightarrow> error + 'a list" where
  "sql_offset n rows = (if sqlite_integer n then Inr (drop (nat n) rows) else Inl Internal_Error)"

definition sql_limit :: "int \<Rightarrow> 'a list \<Rightarrow> error + 'a list" where
  "sql_limit n rows =
     (if sqlite_integer n then Inr (if n < 0 then rows else take (nat n) rows)
      else Inl Internal_Error)"

fun validate_rows :: "TaskDB list \<Rightarrow> error + TaskOut list" where
  "validate_rows [] = Inr []"
| "validate_rows (t # ts) =
     (case model_validate t of
        Inl e \<Rightarrow> Inl e
      | Inr out \<Rightarrow> (case validate_rows ts of Inl e \<Rightarrow> Inl e | Inr outs \<Rightarrow> Inr (out # outs)))"

text \<open>The rows of \<open>stmt\<close> before \<open>limit\<close> and \<open>offset\<close> are applied.\<close>

definition select_stmt :: "list_args \<Rightarrow> (TaskDB \<Rightarrow> int) \<Rightarrow> table \<Rightarrow> error + TaskDB list" where
  "select_stmt a col db =
     (case select_where a db of
        Inl e \<Rightarrow> Inl e
      | Inr rows \<Rightarrow> Inr (order_by col (arg_order a) rows))"

definition list_tasks :: "list_args \<Rightarrow> table \<Rightarrow> error + TaskListOut" where
  "list_tasks a db =
     (case sort_col (arg_sort a) of
        None \<Rightarrow> Inl Internal_Error
      | Some col \<Rightarrow>
          (case select_stmt a col db of
             Inl e \<Rightarrow> Inl e
           | Inr stmt \<Rightarrow>
               let total = int (length stmt)
               in (case sql_offset (arg_offset a) stmt of
                     Inl e \<Rightarrow> Inl e
                   | Inr rest \<Rightarrow>
                       (case sql_limit (arg_limit a) rest of
                          Inl e \<Rightarrow> Inl e
                        | Inr page \<Rightarrow>
                            (case validate_rows page of
                               Inl e \<Rightarrow> Inl e
                             | Inr outs \<Rightarrow> Inr \<lparr>total = total, items = outs\<rparr>)))))"

text \<open>
  The query string of \<open>GET /tasks\<close>: \<open>status\<close> may be repeated, every other parameter
  is given at most once. The declarations of the parameters give the defaults and the
  constraints.
\<close>

record query_string =
  qs_status :: "str list"
  qs_q :: "str option"
  qs_id :: "int option"
  qs_limit :: "int option"
  qs_offset :: "int option"
  qs_sort :: "str option"
  qs_order :: "str option"

fun parse_statuses :: "str list \<Rightarrow> TaskStatus list option" where
  "parse_statuses [] = Some []"
| "parse_statuses (v # vs) =
     (case parse_status v of
        None \<Rightarrow> None
      | Some s \<Rightarrow> (case parse_statuses vs of None \<Rightarrow> None | Some ss \<Rightarrow> Some (s # ss)))"

definition Query_status :: "str list \<Rightarrow> TaskStatus list option option" where
  "Query_status vs =
     (if vs = [] then Some None
      else (case parse_statuses vs of None \<Rightarrow> None | Some ss \<Rightarrow> Some (Some ss)))"

definition Query_id :: "int option \<Rightarrow> int option option" where
  "Query_id v = (case v of None \<Rightarrow> Some None | Some i \<Rightarrow> if 1 \<le> i then Some (Some i) else None)"

definition Query_limit :: "int option \<Rightarrow> int option" where
  "Query_limit v =
     (case v of None \<Rightarrow> Some 20 | Some n \<Rightarrow> if 1 \<le> n \<and> n \<le> 100 then Some n else None)"

definition Query_offset :: "int option \<Rightarrow> int option" where
  "Query_offset v = (case v of None \<Rightarrow> Some 0 | Some n \<Rightarrow> if 0 \<le> n then Some n else None)"

definition Query_sort :: "str option \<Rightarrow> str option" where
  "Query_sort v =
     (case v of
        None \<Rightarrow> Some (lit ''due_date'')
      | Some s \<Rightarrow>
          if s \<in> {lit ''id'', lit ''due_date'', lit ''created_at'', lit ''updated_at''}
          then Some s else None)"

definition Query_order :: "str option \<Rightarrow> str option" where
  "Query_order v =
     (case v of
        None \<Rightarrow> Some (lit ''asc'')
      | Some s \<Rightarrow> if s \<in> {lit ''asc'', lit ''desc''} then Some s else None)"

definition query_errors :: "query_string \<Rightarrow> string list" where
  "query_errors qs =
     field_error ''status'' (Query_status (qs_status qs)) @
     field_error ''id'' (Query_id (qs_id qs)) @
     field_error ''limit'' (Query_limit (qs_limit qs)) @
     field_error ''offset'' (Query_offset (qs_offset qs)) @
     field_error ''sort'' (Query_sort (qs_sort qs)) @
     field_error ''order'' (Query_order (qs_order qs))"

definition query_validate :: "query_string \<Rightarrow> error + list_args" where
  "query_validate qs =
     (case (Query_status (qs_status qs), Query_id (qs_id qs), Query_limit (qs_limit qs),
            Query_offset (qs_offset qs), Query_sort (qs_sort qs), Query_order (qs_order qs)) of
        (Some st, Some i, Some l, Some off, Some s, Some ord) \<Rightarrow>
          Inr \<lparr>arg_status_filter = st, arg_q = qs_q qs, arg_task_id = i, arg_limit = l,
               arg_offset = off, arg_sort = s, arg_order = ord\<rparr>
      | _ \<Rightarrow> Inl (Validation_Error (query_errors qs)))"

definition GET_tasks :: "query_string \<Rightarrow> table \<Rightarrow> error + TaskListOut" where
  "GET_tasks qs db =
     (case query_validate qs of Inl e \<Rightarrow> Inl e | Inr a \<Rightarrow> list_tasks a db)"

section \<open>Histories\<close>

text \<open>
  The requests that write to the table, each with the clock reading its handler takes,
  and the table a history of such requests leaves behind.
\<close>

datatype request = Post json_body | Patch int json_body | Delete int

fun step :: "naive_datetime \<Rightarrow> request \<Rightarrow> table \<Rightarrow> table" where
  "step now (Post b) db = snd (POST_tasks now b db)"
| "step now (Patch i b) db = snd (PATCH_task now i b db)"
| "step now (Delete i) db = snd (DELETE_task i db)"

fun run :: "(naive_datetime \<times> request) list \<Rightarrow> table \<Rightarrow> table" where
  "run [] db = db"
| "run ((now, r) # evs) db = run evs (step now r db)"

text \<open>
  What the database guarantees of the table and what the handlers maintain: ids are
  positive SQLite integers and pairwise distinct, and every status column holds the value
  of a \<open>TaskStatus\<close> member.
\<close>

definition store_ok :: "table \<Rightarrow> bool" where
  "store_ok db =
     (distinct (map task_id db) \<and>
      list_all (\<lambda>t. 1 \<le> task_id t \<and> sqlite_integer (task_id t) \<and>
                     parse_status (status t) \<noteq> None) db)"

text \<open>
  A query is within the limits of SQLite when the id of its filter and its offset are
  SQLite integers and its search pattern, \<open>%\<close> on both sides of the stripped \<open>q\<close>,
  has at most 50000 bytes.
\<close>

definition within_limits :: "list_args \<Rightarrow> bool" where
  "within_limits a =
     ((case arg_task_id a of None \<Rightarrow> True | Some i \<Rightarrow> sqlite_integer i) \<and>
      sqlite_integer (arg_offset a) \<and>
      (case arg_q a of None \<Rightarrow> True | Some q \<Rightarrow> utf8_length (strip q) + 2 \<le> 50000))"

text \<open>The rows a query selects: those on which the \<open>where\<close> clauses come out true.\<close>

definition selected :: "list_args \<Rightarrow> TaskDB \<Rightarrow> bool" where
  "selected a t = (where_clause a t = Inr True)"

section \<open>Notions of the specification\<close>

text \<open>The value a key of a body carries, if it carries one.\<close>

definition field_value :: "'a field \<Rightarrow> 'a option" where
  "field_value f = (case f of Given v \<Rightarrow> Some v | _ \<Rightarrow> None)"

text \<open>
  A title contains a string when the string is a contiguous part of it; the comparison
  ignores the case of the ASCII letters.
\<close>

definition contains_ignoring_case :: "str \<Rightarrow> str \<Rightarrow> bool" where
  "contains_ignoring_case t s = sublist (sqlite_lower s) (sqlite_lower t)"

text \<open>
  The lower-case mapping of the letters of Latin-1: a case-insensitive comparison in the
  sense of Unicode takes \<open>U+00C9\<close> and \<open>U+00E9\<close> for the same letter.
\<close>

definition latin1_lower :: "nat \<Rightarrow> nat" where
  "latin1_lower c =
     (if (65 \<le> c \<and> c \<le> 90) \<or> (192 \<le> c \<and> c \<le> 222 \<and> c \<noteq> 215) then c + 32 else c)"

text \<open>The invariants of a stored task: the status is one of the three enumerated values,
  and the timestamps are ordered.\<close>

definition status_enumerated :: "TaskDB \<Rightarrow> bool" where
  "status_enumerated t =
     (status t \<in> {lit ''pending'', lit ''in_progress'', lit ''completed''})"

definition timestamps_ordered :: "TaskDB \<Rightarrow> bool" where
  "timestamps_ordered t = (created_at t \<le> updated_at t)"

text \<open>What identifies a task over its life in the table: its id and its creation time.\<close>

definition identity :: "TaskDB \<Rightarrow> int \<times> naive_datetime" where
  "identity t = (task_id t, created_at t)"

text \<open>Rows for the examples: a pending task with the given id and due date.\<close>

definition example_task :: "int \<Rightarrow> naive_datetime \<Rightarrow> TaskDB" where
  "example_task i due =
     \<lparr>task_id = i, title = lit ''Task'', description = None, status = lit ''pending'',
      due_date = due, created_at = 7, updated_at = 7\<rparr>"

definition no_params :: query_string where
  "no_params =
     \<lparr>qs_status = [], qs_q = None, qs_id = None, qs_limit = None, qs_offset = None,
      qs_sort = None, qs_order = None\<rparr>"

text \<open>Bodies for the examples: a task with a title and a due date, and the empty object.\<close>

definition example_body :: json_body where
  "example_body =
     \<lparr>json_title = Given (lit ''Task''), json_description = Null, json_due_date = Given (naive 30),
      json_status = Omitted\<rparr>"

definition empty_body :: json_body where
  "empty_body =
     \<lparr>json_title = Omitted, json_description = Omitted, json_due_date = Omitted,
      json_status = Omitted\<rparr>"

section \<open>Basic facts\<close>

lemma parse_status_value [simp]: "parse_status (status_value s) = Some s"
  by (cases s) (simp_all add: parse_status_def lit_def)

lemma parse_status_Some_iff: "parse_status v = Some s \<longleftrightarrow> v = status_value s"
  by (cases s) (auto simp add: parse_status_def lit_def split: if_splits)

lemma task_id_less_next_rowid: "t \<in> set db \<Longrightarrow> task_id t < next_rowid db"
proof -
  assume t: "t \<in> set db"
  then have "task_id t \<le> Max (set (map task_id db))" by (intro Max_ge) auto
  with t show ?thesis by (auto simp add: next_rowid_def)
qed

lemma next_rowid_fresh: "next_rowid db \<notin> task_id ` set db"
  using task_id_less_next_rowid by fastforce


lemma db_get_SomeD: "db_get i db = Some t \<Longrightarrow> t \<in> set db \<and> task_id t = i"
  by (auto simp add: db_get_def find_Some_iff)

lemma db_get_add_new:
  "i \<notin> task_id ` set db \<Longrightarrow> task_id t = i \<Longrightarrow> db_get i (db_add t db) = Some t"
  unfolding db_get_def db_add_def by (induction db) auto

lemma db_get_add_old: "db_get i db = Some t \<Longrightarrow> db_get i (db_add t' db) = Some t"
  unfolding db_get_def db_add_def by (induction db) (auto split: if_splits)

lemma db_get_put_same:
  "db_get i db = Some old \<Longrightarrow> task_id new = i \<Longrightarrow> db_get i (db_put new db) = Some new"
  unfolding db_get_def db_put_def by (induction db) (auto split: if_splits)

lemma db_get_put_other: "j \<noteq> task_id new \<Longrightarrow> db_get j (db_put new db) = db_get j db"
  unfolding db_get_def db_put_def by (induction db) auto


lemma db_get_delete_other: "j \<noteq> task_id t \<Longrightarrow> db_get j (db_delete t db) = db_get j db"
  unfolding db_get_def db_delete_def by (induction db) auto

lemma store_ok_status:
  "store_ok db \<Longrightarrow> t \<in> set db \<Longrightarrow> \<exists>s. parse_status (status t) = Some s"
  by (auto simp add: store_ok_def list_all_iff)

lemma store_ok_id:
  "store_ok db \<Longrightarrow> t \<in> set db \<Longrightarrow> 1 \<le> task_id t \<and> sqlite_integer (task_id t)"
  by (auto simp add: store_ok_def list_all_iff)

lemma create_task_eq:
  "create_task now p db =
     (Inr \<lparr>task_id = next_rowid db, title = create_title p, description = create_description p,
           status = create_status p, due_date = wallclock (create_due_date p),
           created_at = now, updated_at = now\<rparr>,
      db_add \<lparr>task_id = next_rowid db, title = create_title p,
              description = create_description p, status = status_value (create_status p),
              due_date = wallclock (create_due_date p), created_at = now,
              updated_at = now\<rparr> db)"
  by (simp add: create_task_def model_validate_def)

lemma get_task_after_create:
  "create_task now p db = (Inr out, db') \<Longrightarrow> sqlite_integer (next_rowid db) \<Longrightarrow>
   get_task (task_id out) db' = Inr out"
  by (auto simp add: create_task_eq get_task_def Session_get_def db_get_add_new
      next_rowid_fresh model_validate_def)

lemma apply_update_fields:
  "task_id (apply_update now p old) = task_id old"
  "title (apply_update now p old) = (case update_title p of None \<Rightarrow> title old | Some v \<Rightarrow> v)"
  "description (apply_update now p old) =
     (case update_description p of None \<Rightarrow> description old | Some v \<Rightarrow> Some v)"
  "status (apply_update now p old) =
     (case update_status p of None \<Rightarrow> status old | Some v \<Rightarrow> status_value v)"
  "due_date (apply_update now p old) =
     (case update_due_date p of None \<Rightarrow> due_date old | Some v \<Rightarrow> wallclock v)"
  "created_at (apply_update now p old) = created_at old"
  "updated_at (apply_update now p old) = now"
  by (simp_all add: apply_update_def Let_def split: option.splits)

lemma update_task_found:
  "sqlite_integer i \<Longrightarrow> db_get i db = Some old \<Longrightarrow>
   update_task now i p db =
     (model_validate (apply_update now p old), db_put (apply_update now p old) db)"
  by (simp add: update_task_def Session_get_def Let_def)

lemma update_task_keeps_or_puts:
  "snd (update_task now i p db) = db \<or>
   (\<exists>old. db_get i db = Some old \<and>
      snd (update_task now i p db) = db_put (apply_update now p old) db)"
  by (cases "sqlite_integer i"; cases "db_get i db")
    (simp_all add: update_task_def Session_get_def Let_def)

lemma TaskCreate_validate_cases:
  "TaskCreate_validate b = Inl (Validation_Error (TaskCreate_errors b)) \<or>
   (\<exists>p. TaskCreate_validate b = Inr p \<and> TaskCreate_errors b = [])"
  by (auto simp add: TaskCreate_validate_def TaskCreate_errors_def field_error_def
      split: option.splits)

section \<open>Creating a task\<close>

text \<open>
  What \<open>POST /tasks\<close> does with a valid body: it answers 201 with a record that carries
  the title, the description and the status of the body, \<open>pending\<close> where the body has no
  status, the id the table assigns, and the clock reading of the handler as both
  timestamps; the due date of the record is the wall-clock part of the due date of the
  body. While the id is a SQLite integer, \<open>GET /tasks/{id}\<close> returns the same record.
\<close>

lemma create_task_record:
  assumes title: "json_title b = Given t" "1 \<le> length t" "length t \<le> 200"
    and descr: "\<forall>d. json_description b = Given d \<longrightarrow> length d \<le> 10000"
    and due: "json_due_date b = Given dd"
    and stat: "json_status b = Omitted \<or> json_status b = Given (status_value s)"
  shows "\<exists>out db'.
           POST_tasks now b db = (Inr out, db') \<and>
           POST_tasks_status (fst (POST_tasks now b db)) = 201 \<and>
           title out = t \<and>
           description out = field_value (json_description b) \<and>
           due_date out = wallclock dd \<and>
           (utcoffset dd = None \<longrightarrow> naive (due_date out) = dd) \<and>
           status out = (if json_status b = Omitted then pending else s) \<and>
           task_id out = next_rowid db \<and> created_at out = now \<and> updated_at out = now \<and>
           (sqlite_integer (next_rowid db) \<longrightarrow> GET_task (task_id out) db' = Inr out)"
proof -
  let ?s = "if json_status b = Omitted then pending else s"
  have d: "Optional_description (json_description b) = Some (field_value (json_description b))"
    using descr
    by (cases "json_description b") (simp_all add: Optional_description_def field_value_def)
  have s: "TaskCreate_status (json_status b) = Some ?s"
    using stat by (auto simp add: TaskCreate_status_def)
  have v: "TaskCreate_validate b =
      Inr \<lparr>create_title = t, create_description = field_value (json_description b),
           create_due_date = dd, create_status = ?s\<rparr>"
    using title due
    by (simp add: TaskCreate_validate_def TaskBase_title_def TaskBase_due_date_def d s)
  obtain out db' where c: "POST_tasks now b db = (Inr out, db')"
    by (simp add: POST_tasks_def v create_task_eq)
  then have g: "sqlite_integer (next_rowid db) \<longrightarrow> GET_task (task_id out) db' = Inr out"
    by (simp add: POST_tasks_def v get_task_after_create GET_task_def)
  from c have f: "title out = t \<and> description out = field_value (json_description b) \<and>
      due_date out = wallclock dd \<and> status out = ?s \<and> task_id out = next_rowid db \<and>
      created_at out = now \<and> updated_at out = now"
    by (auto simp add: POST_tasks_def v create_task_eq)
  then have n: "utcoffset dd = None \<longrightarrow> naive (due_date out) = dd"
    by (cases dd) (simp add: naive_def)
  from c g f n show ?thesis
    by (intro exI[of _ out] exI[of _ db']) (simp add: POST_tasks_status_def status_code_def)
qed

text \<open>
  C1. The due date of the created record is not the due date of the request when that
  carries a UTC offset: the body \<open>due_date = 2000-01-01T10:00:00+05:00\<close> is answered with
  the due date \<open>2000-01-01T10:00:00\<close>, without the offset, and that is what the table
  holds and what a later fetch returns.
\<close>

theorem create_drops_utc_offset:
  "POST_tasks 7 (example_body\<lparr>json_due_date := Given (Datetime 20000101100000 (Some 300))\<rparr>) [] =
     (Inr \<lparr>task_id = 1, title = lit ''Task'', description = None, status = pending,
           due_date = 20000101100000, created_at = 7, updated_at = 7\<rparr>,
      [\<lparr>task_id = 1, title = lit ''Task'', description = None, status = lit ''pending'',
        due_date = 20000101100000, created_at = 7, updated_at = 7\<rparr>]) \<and>
   GET_task 1
     [\<lparr>task_id = 1, title = lit ''Task'', description = None, status = lit ''pending'',
       due_date = 20000101100000, created_at = 7, updated_at = 7\<rparr>] =
     Inr \<lparr>task_id = 1, title = lit ''Task'', description = None, status = pending,
          due_date = 20000101100000, created_at = 7, updated_at = 7\<rparr> \<and>
   naive 20000101100000 \<noteq> Datetime 20000101100000 (Some 300)"
  by (simp add: POST_tasks_def TaskCreate_validate_def TaskBase_title_def
      Optional_description_def TaskBase_due_date_def TaskCreate_status_def create_task_def
      model_validate_def parse_status_def next_rowid_def db_add_def example_body_def
      GET_task_def get_task_def Session_get_def sqlite_integer_def db_get_def naive_def lit_def)

text \<open>
  C2. A body whose title is the empty string or longer than 200 characters, or whose
  description is longer than 10,000 characters, is answered with 422 and the table is
  left as it was. A body whose title has 1 to 200 characters and whose description is
  absent, null or of at most 10,000 characters is either accepted, or rejected with a
  validation error that names neither \<open>title\<close> nor \<open>description\<close>.
\<close>

theorem create_validation:
  "((\<exists>t. json_title b = Given t \<and> (t = [] \<or> 200 < length t)) \<or>
    (\<exists>d. json_description b = Given d \<and> 10000 < length d) \<longrightarrow>
      (\<exists>fields. POST_tasks now b db = (Inl (Validation_Error fields), db) \<and>
         status_code 201 (fst (POST_tasks now b db)) = 422)) \<and>
   ((\<exists>t. json_title b = Given t \<and> 1 \<le> length t \<and> length t \<le> 200) \<and>
    (\<forall>d. json_description b = Given d \<longrightarrow> length d \<le> 10000) \<longrightarrow>
      (\<exists>out db'. POST_tasks now b db = (Inr out, db')) \<or>
      (\<exists>fields. POST_tasks now b db = (Inl (Validation_Error fields), db) \<and>
         ''title'' \<notin> set fields \<and> ''description'' \<notin> set fields))"
proof (intro conjI impI)
  assume "(\<exists>t. json_title b = Given t \<and> (t = [] \<or> 200 < length t)) \<or>
    (\<exists>d. json_description b = Given d \<and> 10000 < length d)"
  then have "TaskBase_title (json_title b) = None \<or>
      Optional_description (json_description b) = None"
    by (auto simp add: TaskBase_title_def Optional_description_def)
  then have "TaskCreate_validate b = Inl (Validation_Error (TaskCreate_errors b))"
    by (auto simp add: TaskCreate_validate_def split: option.splits)
  then show "\<exists>fields. POST_tasks now b db = (Inl (Validation_Error fields), db) \<and>
      status_code 201 (fst (POST_tasks now b db)) = 422"
    by (simp add: POST_tasks_def status_code_def)
next
  assume a: "(\<exists>t. json_title b = Given t \<and> 1 \<le> length t \<and> length t \<le> 200) \<and>
    (\<forall>d. json_description b = Given d \<longrightarrow> length d \<le> 10000)"
  then have t: "TaskBase_title (json_title b) \<noteq> None"
    by (auto simp add: TaskBase_title_def)
  from a have d: "Optional_description (json_description b) \<noteq> None"
    by (cases "json_description b") (simp_all add: Optional_description_def)
  from t d have e: "''title'' \<notin> set (TaskCreate_errors b)"
      "''description'' \<notin> set (TaskCreate_errors b)"
    by (auto simp add: TaskCreate_errors_def field_error_def split: option.splits)
  from TaskCreate_validate_cases[of b]
  show "(\<exists>out db'. POST_tasks now b db = (Inr out, db')) \<or>
      (\<exists>fields. POST_tasks now b db = (Inl (Validation_Error fields), db) \<and>
         ''title'' \<notin> set fields \<and> ''description'' \<notin> set fields)"
  proof
    assume "TaskCreate_validate b = Inl (Validation_Error (TaskCreate_errors b))"
    with e show ?thesis by (simp add: POST_tasks_def)
  next
    assume "\<exists>p. TaskCreate_validate b = Inr p \<and> TaskCreate_errors b = []"
    then show ?thesis by (auto simp add: POST_tasks_def create_task_eq)
  qed
qed

theorem create_validation_witness:
  "POST_tasks 7 \<lparr>json_title = Given [], json_description = Null,
                 json_due_date = Given (naive 20300101), json_status = Omitted\<rparr> [] =
     (Inl (Validation_Error [''title'']), []) \<and>
   POST_tasks 7 \<lparr>json_title = Given (lit ''Task 1''), json_description = Given (replicate 10001 97),
                 json_due_date = Given (naive 20300101), json_status = Omitted\<rparr> [] =
     (Inl (Validation_Error [''description'']), []) \<and>
   POST_tasks 7 \<lparr>json_title = Given (lit ''Task 1''), json_description = Null,
                 json_due_date = Omitted, json_status = Omitted\<rparr> [] =
     (Inl (Validation_Error [''due_date'']), [])"
  using create_validation[of "\<lparr>json_title = Given [], json_description = Null,
      json_due_date = Given (naive 20300101), json_status = Omitted\<rparr>" 7 "[]"]
    create_validation[of "\<lparr>json_title = Given (lit ''Task 1''),
      json_description = Given (replicate 10001 97),
      json_due_date = Given (naive 20300101), json_status = Omitted\<rparr>" 7 "[]"]
    create_validation[of "\<lparr>json_title = Given (lit ''Task 1''), json_description = Null,
      json_due_date = Omitted, json_status = Omitted\<rparr>" 7 "[]"]
  by (simp add: POST_tasks_def TaskCreate_validate_def TaskCreate_errors_def field_error_def
      TaskBase_title_def Optional_description_def TaskBase_due_date_def TaskCreate_status_def
      lit_def)

section \<open>Updating a task\<close>

text \<open>
  What \<open>update_task\<close> does to a task that is in the table: it answers 200 with the
  validated row it has written back. In that row every field the payload holds a value
  for has that value, the due date without its UTC offset, every other field has the
  value it had, \<open>updated_at\<close> is the clock reading of the handler, and \<open>id\<close> and
  \<open>created_at\<close> are as before. Every other row of the table is untouched.
\<close>

lemma update_task_record:
  assumes "store_ok db" and "db_get i db = Some old"
  shows "\<exists>new out.
           update_task now i p db = (Inr out, db_put new db) \<and>
           PATCH_task_status (fst (update_task now i p db)) = 200 \<and>
           db_get i (db_put new db) = Some new \<and>
           model_validate new = Inr out \<and>
           title new = (case update_title p of None \<Rightarrow> title old | Some v \<Rightarrow> v) \<and>
           description new =
             (case update_description p of None \<Rightarrow> description old | Some v \<Rightarrow> Some v) \<and>
           status new =
             (case update_status p of None \<Rightarrow> status old | Some v \<Rightarrow> status_value v) \<and>
           due_date new =
             (case update_due_date p of None \<Rightarrow> due_date old | Some v \<Rightarrow> wallclock v) \<and>
           updated_at new = now \<and>
           task_id new = task_id old \<and>
           created_at new = created_at old \<and>
           (\<forall>j. j \<noteq> i \<longrightarrow> db_get j (db_put new db) = db_get j db)"
proof -
  let ?new = "apply_update now p old"
  from assms db_get_SomeD[of i db old] have old: "old \<in> set db" "task_id old = i" by auto
  with assms(1) have i: "sqlite_integer i" using store_ok_id by blast
  from old assms(1) obtain s0 where s0: "parse_status (status old) = Some s0"
    using store_ok_status by blast
  obtain s where s: "parse_status (status ?new) = Some s"
    using s0 by (cases "update_status p") (simp_all add: apply_update_fields)
  then obtain out where out: "model_validate ?new = Inr out"
    by (simp add: model_validate_def)
  have id: "task_id ?new = i" using old by (simp add: apply_update_fields)
  show ?thesis
    apply (intro exI[of _ ?new] exI[of _ out])
    apply (simp add: update_task_found[OF i assms(2)] out db_get_put_same[OF assms(2) id]
        db_get_put_other id PATCH_task_status_def status_code_def)
    apply (simp add: apply_update_fields old)
    done
qed

text \<open>
  C3. A due date supplied with a UTC offset is not the due date of the updated record:
  on a stored task, the body \<open>due_date = 2031-02-01T14:30:00+00:00\<close> is answered with
  the due date \<open>2031-02-01T14:30:00\<close>, without the offset, and that is what the table
  holds afterwards.
\<close>

theorem update_drops_utc_offset:
  "PATCH_task 9 1 (empty_body\<lparr>json_due_date := Given (Datetime 20310201143000 (Some 0))\<rparr>)
     [example_task 1 30] =
     (Inr \<lparr>task_id = 1, title = lit ''Task'', description = None, status = pending,
           due_date = 20310201143000, created_at = 7, updated_at = 9\<rparr>,
      [\<lparr>task_id = 1, title = lit ''Task'', description = None, status = lit ''pending'',
        due_date = 20310201143000, created_at = 7, updated_at = 9\<rparr>]) \<and>
   naive 20310201143000 \<noteq> Datetime 20310201143000 (Some 0)"
  by (simp add: PATCH_task_def TaskUpdate_validate_def TaskUpdate_title_def
      Optional_description_def TaskUpdate_status_def TaskUpdate_due_date_def
      update_task_def Session_get_def sqlite_integer_def db_get_def apply_update_def
      db_put_def model_validate_def parse_status_def example_task_def empty_body_def
      naive_def lit_def Let_def)

text \<open>
  C10. When the stored description of a task is not null and the body of
  \<open>PATCH /tasks/{id}\<close> carries \<open>description\<close> with the value \<open>null\<close>, the task
  has the same description after the request: the payload does not tell an explicit
  \<open>null\<close> from an absent key.
\<close>

theorem null_description_keeps_description:
  assumes "db_get i db = Some old" and "description old = Some d"
    and "json_description b = Null"
  shows "\<exists>new. db_get i (snd (PATCH_task now i b db)) = Some new \<and> description new = Some d"
proof (cases "TaskUpdate_validate b")
  case (Inl e)
  with assms show ?thesis by (simp add: PATCH_task_def)
next
  case (Inr p)
  then have none: "update_description p = None"
    using assms(3)
    by (auto simp add: TaskUpdate_validate_def Optional_description_def
        split: option.splits prod.splits)
  have id: "task_id (apply_update now p old) = i"
    using db_get_SomeD[OF assms(1)] by (simp add: apply_update_fields)
  show ?thesis
  proof (cases "sqlite_integer i")
    case True
    with assms Inr none id show ?thesis
      by (simp add: PATCH_task_def update_task_found db_get_put_same apply_update_fields)
  next
    case False
    with assms Inr show ?thesis
      by (simp add: PATCH_task_def update_task_def Session_get_def)
  qed
qed

theorem null_description_keeps_description_witness:
  "PATCH_task 9 1
     \<lparr>json_title = Omitted, json_description = Null, json_due_date = Omitted,
      json_status = Omitted\<rparr>
     [\<lparr>task_id = 1, title = lit ''Task 1'', description = Some (lit ''first''),
       status = lit ''pending'', due_date = 20300101, created_at = 7, updated_at = 7\<rparr>] =
   (Inr \<lparr>task_id = 1, title = lit ''Task 1'', description = Some (lit ''first''),
         status = pending, due_date = 20300101, created_at = 7, updated_at = 9\<rparr>,
    [\<lparr>task_id = 1, title = lit ''Task 1'', description = Some (lit ''first''),
      status = lit ''pending'', due_date = 20300101, created_at = 7, updated_at = 9\<rparr>])"
proof -
  let ?old = "\<lparr>task_id = 1, title = lit ''Task 1'', description = Some (lit ''first''),
       status = lit ''pending'', due_date = 20300101, created_at = 7, updated_at = 7\<rparr>"
  let ?b = "\<lparr>json_title = Omitted, json_description = Null, json_due_date = Omitted,
      json_status = Omitted\<rparr>"
  have got: "db_get 1 [?old] = Some ?old"
    by (simp add: db_get_def)
  have "\<exists>new. db_get 1 (snd (PATCH_task 9 1 ?b [?old])) = Some new \<and>
      description new = Some (lit ''first'')"
    by (rule null_description_keeps_description[OF got]) simp_all
  then show ?thesis
    by (simp add: PATCH_task_def TaskUpdate_validate_def TaskUpdate_title_def
        Optional_description_def TaskUpdate_status_def TaskUpdate_due_date_def
        update_task_def Session_get_def sqlite_integer_def db_get_def apply_update_def
        db_put_def model_validate_def parse_status_def lit_def)
qed

section \<open>Ids that are not in the table\<close>




section \<open>Listing tasks\<close>

lemma model_validate_fields:
  assumes "model_validate t = Inr out"
  shows "task_id out = task_id t" "title out = title t" "description out = description t"
    "parse_status (status t) = Some (status out)" "due_date out = due_date t"
    "created_at out = created_at t" "updated_at out = updated_at t"
  using assms by (auto simp add: model_validate_def split: option.splits)

lemma validate_rows_ok:
  "list_all (\<lambda>t. parse_status (status t) \<noteq> None) rows \<Longrightarrow>
   \<exists>outs. validate_rows rows = Inr outs \<and>
          list_all2 (\<lambda>t out. model_validate t = Inr out) rows outs"
proof (induction rows)
  case Nil
  then show ?case by simp
next
  case (Cons t rows)
  then obtain outs where outs: "validate_rows rows = Inr outs"
    "list_all2 (\<lambda>t out. model_validate t = Inr out) rows outs" by auto
  from Cons.prems obtain out where out: "model_validate t = Inr out"
    by (auto simp add: model_validate_def)
  with outs show ?case by simp
qed

lemma store_ok_rows:
  "store_ok db \<Longrightarrow> set rows \<subseteq> set db \<Longrightarrow>
   list_all (\<lambda>t. parse_status (status t) \<noteq> None) rows"
  by (auto simp add: store_ok_def list_all_iff)


lemma query_validate_InrD:
  assumes "query_validate qs = Inr a"
  shows "Query_status (qs_status qs) = Some (arg_status_filter a)"
    "Query_id (qs_id qs) = Some (arg_task_id a)"
    "Query_limit (qs_limit qs) = Some (arg_limit a)"
    "Query_offset (qs_offset qs) = Some (arg_offset a)"
    "Query_sort (qs_sort qs) = Some (arg_sort a)"
    "Query_order (qs_order qs) = Some (arg_order a)"
    "arg_q a = qs_q qs"
  using assms unfolding query_validate_def
  by (auto split: option.splits)

lemma query_validate_limit:
  assumes "query_validate qs = Inr a"
  shows "1 \<le> arg_limit a" "arg_limit a \<le> 100"
    "arg_limit a = (case qs_limit qs of None \<Rightarrow> 20 | Some n \<Rightarrow> n)"
  using query_validate_InrD(3)[OF assms]
  by (auto simp add: Query_limit_def split: option.splits if_splits)


lemma query_validate_sort:
  assumes "query_validate qs = Inr a"
  shows "arg_sort a \<in> {lit ''id'', lit ''due_date'', lit ''created_at'', lit ''updated_at''}"
    "arg_sort a = (case qs_sort qs of None \<Rightarrow> lit ''due_date'' | Some s \<Rightarrow> s)"
  using query_validate_InrD(5)[OF assms]
  by (auto simp add: Query_sort_def split: option.splits if_splits)


lemma query_validate_filters:
  assumes "query_validate qs = Inr a"
  shows "qs_status qs = [] \<Longrightarrow> arg_status_filter a = None"
    "arg_task_id a = qs_id qs"
  using query_validate_InrD(1,2)[OF assms]
  by (auto simp add: Query_status_def Query_id_def split: option.splits if_splits)

lemma sort_col_valid:
  "n \<in> {lit ''id'', lit ''due_date'', lit ''created_at'', lit ''updated_at''} \<Longrightarrow>
   \<exists>k. sort_col n = Some k"
  by (auto simp add: sort_col_def)

lemma validate_rows_Inr:
  "validate_rows rows = Inr outs \<Longrightarrow>
   list_all2 (\<lambda>t out. model_validate t = Inr out) rows outs"
  by (induction rows arbitrary: outs) (auto split: sum.splits)

text \<open>Running the \<open>where\<close> clauses: when no row raises, the rows selected.\<close>

lemma where_rows_Inr:
  "where_rows a db = Inr rows \<Longrightarrow> rows = filter (selected a) db"
  by (induction db arbitrary: rows) (auto simp add: selected_def split: sum.splits)

lemma where_rows_total:
  "\<forall>t\<in>set db. \<exists>keep. where_clause a t = Inr keep \<Longrightarrow>
   where_rows a db = Inr (filter (selected a) db)"
  by (induction db) (auto simp add: selected_def)

lemma utf8_length_sqlite_lower: "utf8_length (sqlite_lower s) = utf8_length s"
proof -
  have "utf8_bytes (ascii_lower c) = utf8_bytes c" for c
    by (simp add: utf8_bytes_def ascii_lower_def)
  then show ?thesis
    by (simp add: utf8_length_def sqlite_lower_def comp_def)
qed

lemma utf8_length_pattern:
  "utf8_length (sqlite_lower ([37] @ s @ [37])) = utf8_length s + 2"
  by (simp add: utf8_length_sqlite_lower) (simp add: utf8_length_def utf8_bytes_def)

lemma where_clause_total:
  assumes "within_limits a"
  shows "\<exists>keep. where_clause a t = Inr keep"
proof (cases "arg_q a")
  case None
  then show ?thesis by (auto simp add: where_clause_def)
next
  case (Some q)
  with assms have "utf8_length (strip q) + 2 \<le> 50000"
    by (simp add: within_limits_def)
  then have "\<exists>keep. ilike (title t) ([37] @ strip q @ [37]) = Inr keep"
    unfolding ilike_def like_def utf8_length_pattern by simp
  with Some show ?thesis
    by (auto simp add: where_clause_def Let_def)
qed

lemma select_stmt_Inr:
  assumes "select_stmt a col db = Inr stmt"
  shows "stmt = order_by col (arg_order a) (filter (selected a) db)"
    and "mset stmt = mset (filter (selected a) db)"
    and "length stmt = length (filter (selected a) db)"
    and "set stmt = {t \<in> set db. selected a t}"
proof -
  from assms obtain rows where rows: "where_rows a db = Inr rows"
    and stmt: "stmt = order_by col (arg_order a) rows"
    by (auto simp add: select_stmt_def select_where_def split: sum.splits if_splits)
  from where_rows_Inr[OF rows] stmt
  show "stmt = order_by col (arg_order a) (filter (selected a) db)" by simp
  then show "mset stmt = mset (filter (selected a) db)"
    "length stmt = length (filter (selected a) db)"
    "set stmt = {t \<in> set db. selected a t}"
    by (auto simp add: order_by_def)
qed

lemma select_stmt_total:
  assumes "within_limits a"
  shows "select_stmt a col db = Inr (order_by col (arg_order a) (filter (selected a) db))"
proof -
  have "where_rows a db = Inr (filter (selected a) db)"
    using where_clause_total[OF assms] by (intro where_rows_total) blast
  with assms show ?thesis
    by (simp add: select_stmt_def select_where_def within_limits_def)
qed

text \<open>
  What a response of \<open>GET /tasks\<close> holds: the number of selected rows, and the
  validated rows of the statement from \<open>offset\<close> on, at most \<open>limit\<close> of them.
\<close>

lemma GET_tasks_Inr:
  assumes get: "GET_tasks qs db = Inr out" and v: "query_validate qs = Inr a"
    and col: "sort_col (arg_sort a) = Some col"
  shows "\<exists>stmt. select_stmt a col db = Inr stmt \<and>
           total out = int (length (filter (selected a) db)) \<and>
           list_all2 (\<lambda>t out. model_validate t = Inr out)
             (take (nat (arg_limit a)) (drop (nat (arg_offset a)) stmt)) (items out)"
proof -
  from get v col obtain stmt rest page outs where
    stmt: "select_stmt a col db = Inr stmt" and
    rest: "sql_offset (arg_offset a) stmt = Inr rest" and
    page: "sql_limit (arg_limit a) rest = Inr page" and
    outs: "validate_rows page = Inr outs" and
    out: "out = \<lparr>total = int (length stmt), items = outs\<rparr>"
    by (auto simp add: GET_tasks_def list_tasks_def Let_def split: sum.splits)
  from rest have r: "rest = drop (nat (arg_offset a)) stmt"
    by (auto simp add: sql_offset_def split: if_splits)
  from page query_validate_limit(1)[OF v]
  have p: "page = take (nat (arg_limit a)) rest"
    by (auto simp add: sql_limit_def split: if_splits)
  from validate_rows_Inr[OF outs] stmt show ?thesis
    by (simp add: out p r select_stmt_Inr(3)[OF stmt])
qed

lemma GET_tasks_total:
  assumes ok: "store_ok db" and v: "query_validate qs = Inr a" and lim: "within_limits a"
  shows "\<exists>out. GET_tasks qs db = Inr out"
proof -
  obtain col :: "TaskDB \<Rightarrow> int" where col: "sort_col (arg_sort a) = Some col"
    using sort_col_valid[OF query_validate_sort(1)[OF v]] by blast
  let ?stmt = "order_by col (arg_order a) (filter (selected a) db)"
  let ?page = "take (nat (arg_limit a)) (drop (nat (arg_offset a)) ?stmt)"
  have stmt: "select_stmt a col db = Inr ?stmt"
    using lim by (rule select_stmt_total)
  have "set ?page \<subseteq> set (drop (nat (arg_offset a)) ?stmt)"
    by (rule set_take_subset)
  also have "\<dots> \<subseteq> set ?stmt"
    by (rule set_drop_subset)
  also have "\<dots> \<subseteq> set db"
    by (auto simp add: order_by_def)
  finally have "list_all (\<lambda>t. parse_status (status t) \<noteq> None) ?page"
    using ok store_ok_rows by blast
  then obtain outs where outs: "validate_rows ?page = Inr outs"
    using validate_rows_ok by blast
  have off: "sql_offset (arg_offset a) ?stmt = Inr (drop (nat (arg_offset a)) ?stmt)"
    using lim by (simp add: sql_offset_def within_limits_def)
  have page: "sql_limit (arg_limit a) (drop (nat (arg_offset a)) ?stmt) = Inr ?page"
    using query_validate_limit(1,2)[OF v] by (simp add: sql_limit_def sqlite_integer_def)
  show ?thesis
    by (simp add: GET_tasks_def v list_tasks_def col stmt off page outs Let_def)
qed



lemma filter_by_id:
  "distinct (map task_id db) \<Longrightarrow> t \<in> set db \<Longrightarrow>
   filter (\<lambda>r. task_id r = task_id t) db = [t]"
proof (induction db)
  case Nil
  then show ?case by simp
next
  case (Cons r db)
  show ?case
  proof (cases "r = t")
    case True
    with Cons.prems have "task_id t \<notin> task_id ` set db" by simp
    then have "filter (\<lambda>r. task_id r = task_id t) db = []"
      unfolding filter_empty_conv by (metis imageI)
    with True show ?thesis by simp
  next
    case False
    with Cons.prems have "t \<in> set db" "task_id r \<noteq> task_id t" by auto
    with Cons show ?thesis by simp
  qed
qed






text \<open>
  C8. In a well-formed table that holds a task with id \<open>n\<close>, a valid query whose only
  filter is \<open>id=n\<close> and whose offset is a SQLite integer has total 1, and from offset 0,
  the default, its items are that one task.
\<close>

theorem list_by_id:
  assumes ok: "store_ok db" and v: "query_validate qs = Inr a"
    and t: "db_get n db = Some t"
    and only: "qs_id qs = Some n" "qs_status qs = []" "qs_q qs = None"
    and off: "sqlite_integer (arg_offset a)"
  shows "\<exists>res out.
           GET_tasks qs db = Inr res \<and> total res = 1 \<and>
           model_validate t = Inr out \<and> task_id out = n \<and>
           (arg_offset a = 0 \<longrightarrow> items res = [out])"
proof -
  obtain col :: "TaskDB \<Rightarrow> int" where col: "sort_col (arg_sort a) = Some col"
    using sort_col_valid[OF query_validate_sort(1)[OF v]] by blast
  from t have tin: "t \<in> set db" "task_id t = n" using db_get_SomeD by blast+
  have f: "arg_status_filter a = None" "arg_task_id a = Some n" "arg_q a = None"
    using only query_validate_filters[OF v] query_validate_InrD(7)[OF v] by simp_all
  have "sqlite_integer n"
    using store_ok_id[OF ok tin(1)] tin(2) by simp
  with f off have lim: "within_limits a"
    by (simp add: within_limits_def)
  have w: "selected a = (\<lambda>r. task_id r = task_id t)"
    using f tin by (auto simp add: selected_def where_clause_def fun_eq_iff)
  have sel: "filter (selected a) db = [t]"
    unfolding w using ok tin by (intro filter_by_id) (simp_all add: store_ok_def)
  from GET_tasks_total[OF ok v lim] obtain res where get: "GET_tasks qs db = Inr res"
    by blast
  from GET_tasks_Inr[OF get v col] obtain stmt where
    stmt: "select_stmt a col db = Inr stmt" and tot: "total res = 1" and
    page: "list_all2 (\<lambda>t out. model_validate t = Inr out)
      (take (nat (arg_limit a)) (drop (nat (arg_offset a)) stmt)) (items res)"
    unfolding sel by auto
  have s: "stmt = [t]"
    using select_stmt_Inr(1)[OF stmt] by (simp add: sel order_by_def)
  from ok tin obtain out where out: "model_validate t = Inr out"
    using store_ok_status[of db t] by (auto simp add: model_validate_def)
  have "items res = [out]" if "arg_offset a = 0"
  proof -
    have "take (nat (arg_limit a)) (drop (nat (arg_offset a)) [t]) = [t]"
      using that query_validate_limit(1)[OF v] by (cases "nat (arg_limit a)") simp_all
    with page out show ?thesis by (auto simp add: s list_all2_Cons1)
  qed
  with get tot out tin show ?thesis
    using model_validate_fields(1)[OF out] by auto
qed

theorem list_by_id_witness:
  "\<exists>res out. GET_tasks (no_params\<lparr>qs_id := Some 2\<rparr>)
               [example_task 1 30, example_task 2 10, example_task 3 20] = Inr res \<and>
             total res = 1 \<and> items res = [out] \<and> task_id out = 2"
proof -
  let ?db = "[example_task 1 30, example_task 2 10, example_task 3 20]"
  let ?a = "\<lparr>arg_status_filter = None, arg_q = None, arg_task_id = Some 2, arg_limit = 20,
      arg_offset = 0, arg_sort = lit ''due_date'', arg_order = lit ''asc''\<rparr>"
  have ok: "store_ok ?db"
    by (simp add: store_ok_def sqlite_integer_def example_task_def parse_status_def lit_def)
  have v: "query_validate (no_params\<lparr>qs_id := Some 2\<rparr>) = Inr ?a"
    by (simp add: query_validate_def Query_status_def Query_id_def Query_limit_def
        Query_offset_def Query_sort_def Query_order_def no_params_def)
  have t: "db_get 2 ?db = Some (example_task 2 10)"
    by (simp add: db_get_def example_task_def)
  have off: "sqlite_integer (arg_offset ?a)"
    by (simp add: sqlite_integer_def)
  from list_by_id[OF ok v t _ _ _ off] show ?thesis
    by (auto simp add: no_params_def)
qed



end
